theory Spec2Isabelle
  imports Complex_Main "HOL-Library.Word" "HOL-Library.AList" "HOL-Library.Char_ord"
    "HOL-Library.List_Lexorder"
begin

unbundle bit_operations_syntax

section \<open>Boxes (structures.py)\<close>

text \<open>
  A box is the tuple \<open>(x1, y1, x2, y2)\<close> of Python integers: \<open>(x1, y1)\<close> the top left
  corner, \<open>(x2, y2)\<close> the bottom right one.
\<close>

type_synonym box = "int \<times> int \<times> int \<times> int"

datatype BoxType = BOX | EXTENDED_BOX | MERGED_EXT_BOX | REFERENCE_BOX

text \<open>\<open>box_size\<close>: \<open>(box[2] - box[0]) * (box[3] - box[1])\<close>.\<close>

fun box_size :: "box \<Rightarrow> int" where
  "box_size (x1, y1, x2, y2) = (x2 - x1) * (y2 - y1)"

text \<open>The two local functions of \<open>resolve_overlaps\<close>.\<close>

fun boxes_overlap :: "box \<Rightarrow> box \<Rightarrow> bool" where
  "boxes_overlap (x1_min, y1_min, x1_max, y1_max) (x2_min, y2_min, x2_max, y2_max) =
     (let x_overlap = (x1_min \<le> x2_max \<and> x2_min \<le> x1_max);
          y_overlap = (y1_min \<le> y2_max \<and> y2_min \<le> y1_max)
      in x_overlap \<and> y_overlap)"

fun merge_boxes :: "box \<Rightarrow> box \<Rightarrow> box" where
  "merge_boxes (x1_min, y1_min, x1_max, y1_max) (x2_min, y2_min, x2_max, y2_max) =
     (let x_min = min x1_min x2_min;
          y_min = min y1_min y2_min;
          x_max = max x1_max x2_max;
          y_max = max y1_max y2_max
      in (x_min, y_min, x_max, y_max))"

text \<open>
  The \<open>while merge_queue\<close> loop. \<open>merge_queue\<close> is a Python set: \<open>pop\<close> takes an element
  the language does not fix, and the comprehension walks the rest in an order it does not
  fix either. The model carries the set as the list of its elements in the order the run
  meets them: \<open>pop\<close> takes the head, the comprehension filters the tail, \<open>remove\<close> deletes
  the absorbed boxes. Every run of the loop is the run on one such list (the popped box
  first, then the boxes it absorbs, then the next popped box, ...), so a statement about
  all lists that enumerate the set is a statement about all runs.
\<close>

function merge_loop :: "box list \<Rightarrow> box list \<Rightarrow> box list" where
  "merge_loop [] merged_boxes = merged_boxes"
| "merge_loop (box # merge_queue) merged_boxes =
     (let overlapping_boxes = filter (boxes_overlap box) merge_queue;
          box' = foldl merge_boxes box overlapping_boxes;
          merge_queue' = filter (\<lambda>b. b \<notin> set overlapping_boxes) merge_queue
      in merge_loop merge_queue' (merged_boxes @ [box']))"
  by pat_completeness auto
termination
  by (relation "measure (\<lambda>(q, m). length q)") (auto simp: less_Suc_eq_le)


text \<open>
  \<open>set_order xs q\<close>: the list \<open>q\<close> is one order in which \<open>set(xs)\<close> can hand out its
  elements (each element once).
\<close>

definition set_order :: "box list \<Rightarrow> box list \<Rightarrow> bool" where
  "set_order xs q = (distinct q \<and> set q = set xs)"

text \<open>
  The same loop on the set itself, as a relation: \<open>loop_run Q m r\<close> holds when a run from
  the queue \<open>Q\<close> and the list \<open>m\<close> can end with \<open>r\<close>, whichever element \<open>pop\<close> takes and in
  whichever order the comprehension lists the overlapping boxes.
\<close>

inductive loop_run :: "box set \<Rightarrow> box list \<Rightarrow> box list \<Rightarrow> bool" where
  finished: "loop_run {} merged_boxes merged_boxes"
| iteration: "box \<in> merge_queue \<Longrightarrow> distinct overlapping_boxes \<Longrightarrow>
     set overlapping_boxes = {b \<in> merge_queue - {box}. boxes_overlap box b} \<Longrightarrow>
     loop_run (merge_queue - {box} - set overlapping_boxes)
       (merged_boxes @ [foldl merge_boxes box overlapping_boxes]) result \<Longrightarrow>
     loop_run merge_queue merged_boxes result"

subsection \<open>PageData\<close>

text \<open>
  The dataclass. Paths are strings, the float \<open>scale\<close> is carried as a real (nothing below
  computes with it), and \<open>cached_image_size\<close> is the field \<open>_image_size\<close>, \<open>None\<close> until
  the size has been read.
\<close>

record PageData =
  image_path :: string
  mask_path :: string
  original_path :: string
  scale :: real
  boxes :: "box list"
  extended_boxes :: "box list"
  merged_extended_boxes :: "box list"
  reference_boxes :: "box list"
  cached_image_size :: "(int \<times> int) option"

text \<open>
  The exceptions the modelled methods can raise: \<open>magic.from_file\<close> failing on the file,
  \<open>re.search\<close> returning \<open>None\<close>, whose \<open>.groups()\<close> is an \<open>AttributeError\<close> (as is
  reading an attribute that is not bound), and a dictionary lookup without the key.
  (\<open>boxes_from_type\<close> raises \<open>ValueError\<close> on a selector outside the enumeration; the
  type \<open>BoxType\<close> has no such value.)
\<close>

datatype error = MagicException | AttributeError | KeyError

text \<open>
  \<open>re.search(r"(\d+) x (\d+)", metadata)\<close>: the leftmost match. At a given start the
  greedy \<open>\d+\<close> takes the whole run of digits; a shorter run would be followed by a digit
  and not by the blank, so backtracking finds nothing more.
\<close>

definition is_digit :: "char \<Rightarrow> bool" where
  "is_digit c = (c \<in> set ''0123456789'')"

definition match_here :: "string \<Rightarrow> (string \<times> string) option" where
  "match_here s =
     (let g1 = takeWhile is_digit s;
          rest = dropWhile is_digit s;
          g2 = takeWhile is_digit (drop 3 rest)
      in if g1 \<noteq> [] \<and> take 3 rest = '' x '' \<and> g2 \<noteq> [] then Some (g1, g2) else None)"

fun re_search :: "string \<Rightarrow> (string \<times> string) option" where
  "re_search [] = None"
| "re_search (c # cs) =
     (case match_here (c # cs) of Some g \<Rightarrow> Some g | None \<Rightarrow> re_search cs)"

text \<open>\<open>int(...)\<close> on a string of decimal digits.\<close>

definition int_of_digits :: "string \<Rightarrow> int" where
  "int_of_digits s = foldl (\<lambda>n c. 10 * n + (of_char c - 48)) 0 s"

text \<open>
  The property \<open>image_size\<close>. \<open>from_file\<close> stands for \<open>magic.from_file\<close> on the file
  system of the run: the description of the file at a path, \<open>None\<close> where it raises.
  The property returns the size and leaves it in the cache.
\<close>

definition image_size ::
  "(string \<Rightarrow> string option) \<Rightarrow> PageData \<Rightarrow> error + ((int \<times> int) \<times> PageData)" where
  "image_size from_file self =
     (case cached_image_size self of
        Some sz \<Rightarrow> Inr (sz, self)
      | None \<Rightarrow>
          (case from_file (image_path self) of
             None \<Rightarrow> Inl MagicException
           | Some metadata \<Rightarrow>
               (case re_search metadata of
                  None \<Rightarrow> Inl AttributeError
                | Some (w, h) \<Rightarrow>
                    (let sz = (int_of_digits w, int_of_digits h)
                     in Inr (sz, self\<lparr>cached_image_size := Some sz\<rparr>)))))"

fun boxes_from_type :: "PageData \<Rightarrow> BoxType \<Rightarrow> box list" where
  "boxes_from_type self BOX = boxes self"
| "boxes_from_type self EXTENDED_BOX = extended_boxes self"
| "boxes_from_type self MERGED_EXT_BOX = merged_extended_boxes self"
| "boxes_from_type self REFERENCE_BOX = reference_boxes self"

text \<open>
  The methods below assign \<open>boxes[i] = ...\<close> into the list that \<open>boxes_from_type\<close>
  returned, which is the page's own list: \<open>store_boxes\<close> puts the new list back. (The four
  collections of a page are taken to be four list objects, as \<open>from_json\<close> builds them.)
\<close>

fun store_boxes :: "BoxType \<Rightarrow> box list \<Rightarrow> PageData \<Rightarrow> PageData" where
  "store_boxes BOX bs self = self\<lparr>boxes := bs\<rparr>"
| "store_boxes EXTENDED_BOX bs self = self\<lparr>extended_boxes := bs\<rparr>"
| "store_boxes MERGED_EXT_BOX bs self = self\<lparr>merged_extended_boxes := bs\<rparr>"
| "store_boxes REFERENCE_BOX bs self = self\<lparr>reference_boxes := bs\<rparr>"

text \<open>The body of the loop of \<open>grow_boxes\<close>, and of \<open>right_pad_boxes\<close>, on one box.\<close>

fun grow_box :: "int \<Rightarrow> int \<Rightarrow> int \<Rightarrow> box \<Rightarrow> box" where
  "grow_box padding image_width image_height (x1, y1, x2, y2) =
     (max (x1 - padding) 0, max (y1 - padding) 0,
      min (x2 + padding) image_width, min (y2 + padding) image_height)"

fun right_pad_box :: "int \<Rightarrow> int \<Rightarrow> box \<Rightarrow> box" where
  "right_pad_box padding image_width (x1, y1, x2, y2) =
     (x1, y1, min (x2 + padding) image_width, y2)"

definition grow_boxes ::
  "(string \<Rightarrow> string option) \<Rightarrow> int \<Rightarrow> BoxType \<Rightarrow> PageData \<Rightarrow> error + PageData" where
  "grow_boxes from_file padding box_type self =
     (let bs = boxes_from_type self box_type
      in case image_size from_file self of
           Inl e \<Rightarrow> Inl e
         | Inr ((image_width, image_height), self') \<Rightarrow>
             Inr (store_boxes box_type (map (grow_box padding image_width image_height) bs) self'))"

definition right_pad_boxes ::
  "(string \<Rightarrow> string option) \<Rightarrow> int \<Rightarrow> BoxType \<Rightarrow> PageData \<Rightarrow> error + PageData" where
  "right_pad_boxes from_file padding box_type self =
     (let bs = boxes_from_type self box_type
      in case image_size from_file self of
           Inl e \<Rightarrow> Inl e
         | Inr ((image_width, _), self') \<Rightarrow>
             Inr (store_boxes box_type (map (right_pad_box padding image_width) bs) self'))"

text \<open>
  \<open>resolve_overlaps\<close>. The argument \<open>q\<close> is the order in which the set built from
  \<open>extended_boxes\<close> hands out its elements in this run (\<open>set_order (extended_boxes self) q\<close>).
\<close>

definition resolve_overlaps :: "box list \<Rightarrow> PageData \<Rightarrow> PageData" where
  "resolve_overlaps q self = self\<lparr>merged_extended_boxes := merge_loop q []\<rparr>"

subsection \<open>MaskFittingResults\<close>

text \<open>
  The images are opaque (\<open>'img\<close>); \<open>best_mask\<close> is \<open>None\<close> when no mask fitted. Paths are
  strings and the float deviation is carried as a real.
\<close>

record 'img MaskFittingResults =
  best_mask :: "'img option"
  median_color :: int
  mask_coords :: "int \<times> int"
  analytics_page_path :: string
  analytics_std_deviation :: real
  analytics_mask_index :: int
  mask_box :: box
  debug_masks :: "'img list"

definition analytics :: "'img MaskFittingResults \<Rightarrow> string \<times> bool \<times> int \<times> real" where
  "analytics self =
     (analytics_page_path self, best_mask self \<noteq> None,
      analytics_mask_index self, analytics_std_deviation self)"

definition failed :: "'img MaskFittingResults \<Rightarrow> bool" where
  "failed self = (best_mask self = None)"

definition mask_data :: "'img MaskFittingResults \<Rightarrow> 'img option \<times> int \<times> (int \<times> int)" where
  "mask_data self = (best_mask self, median_color self, mask_coords self)"

definition noise_mask_data :: "'img MaskFittingResults \<Rightarrow> box \<times> real" where
  "noise_mask_data self = (mask_box self, analytics_std_deviation self)"


section \<open>Process steps (gui/image_file.py)\<close>

subsection \<open>Profiles, \<open>attrs.asdict\<close>, \<open>json.dumps\<close> and \<open>zlib.crc32\<close>\<close>

text \<open>
  An \<open>attrs.Attribute\<close> object. Two of them are equal (and hash alike) when their names and
  their other slots (default, validator, type, converter, ...) are equal; the class they were
  taken from is not compared. \<open>slots\<close> holds those other slots as one value.
\<close>

datatype Attribute = Attribute (name: string) (slots: string)

text \<open>
  \<open>fields_of cfg_slots cls n\<close> is \<open>fields(cls).n\<close>, the attribute object of the field
  \<open>n\<close> of the class \<open>cls\<close>. The
  classes are those of \<open>pcleaner.config\<close>, which is not part of the sources at hand:
  \<open>cfg_slots cls n\<close> stands for the other slots of that field.
\<close>

definition fields_of :: "(string \<Rightarrow> string \<Rightarrow> string) \<Rightarrow> string \<Rightarrow> string \<Rightarrow> Attribute" where
  "fields_of cfg_slots cls n = Attribute n (cfg_slots cls n)"

text \<open>
  The module \<open>pcleaner.config\<close> is not part of the sources at hand, so a profile is any
  attrs instance: the list of its attributes, in the order of \<open>fields\<close>, each with its
  value. A value is again an attrs instance (\<open>has(v.__class__)\<close>) or a plain value of
  some type \<open>'v\<close>.
\<close>

datatype 'v pyval = Plain 'v | Instance "(Attribute \<times> 'v pyval) list"

type_synonym 'v attrs_instance = "(Attribute \<times> 'v pyval) list"

datatype 'v json = JValue 'v | JDict "(string \<times> 'v json) list"

text \<open>
  \<open>attrs.filters.include(*what)\<close> called with attributes only is the test
  \<open>attribute in attrs\<close> on the frozen set of its arguments, by the equality of attributes
  above: an attribute of any class passes when it equals one of them. \<open>asdict\<close> skips an
  attribute when \<open>filter is not None and not filter(a, v)\<close>.
\<close>

definition filter_passes :: "Attribute set option \<Rightarrow> Attribute \<Rightarrow> bool" where
  "filter_passes flt a = (case flt of None \<Rightarrow> True | Some attrs \<Rightarrow> a \<in> attrs)"

text \<open>
  \<open>attrs.asdict(inst, filter=flt)\<close>: for each attribute in turn, skip it when the filter
  rejects it, otherwise store under its name the value, converted with the same filter when
  the value is itself an attrs instance. \<open>asdict_into flt fs rv\<close> is the loop over the
  attributes \<open>fs\<close> with the dictionary \<open>rv\<close> built so far.
\<close>

fun asdict_into ::
  "Attribute set option \<Rightarrow> 'v attrs_instance \<Rightarrow> (string \<times> 'v json) list \<Rightarrow> (string \<times> 'v json) list"
and asdict_value :: "Attribute set option \<Rightarrow> 'v pyval \<Rightarrow> 'v json" where
  "asdict_into flt [] rv = rv"
| "asdict_into flt ((a, v) # fs) rv =
     (if \<not> filter_passes flt a then asdict_into flt fs rv
      else asdict_into flt fs (AList.update (name a) (asdict_value flt v) rv))"
| "asdict_value flt (Plain x) = JValue x"
| "asdict_value flt (Instance gs) = JDict (asdict_into flt gs [])"

definition asdict :: "Attribute set option \<Rightarrow> 'v attrs_instance \<Rightarrow> (string \<times> 'v json) list" where
  "asdict flt inst = asdict_into flt inst []"

text \<open>
  \<open>json.dumps(d, sort_keys=True)\<close> with the default separators. \<open>plain_text\<close> is the text
  \<open>json.dumps\<close> prints for a plain value. The keys are attribute names and need no escape.
\<close>

fun join_items :: "string list \<Rightarrow> string" where
  "join_items [] = []"
| "join_items [t] = t"
| "join_items (t # ts) = t @ '', '' @ join_items ts"

definition item_text :: "string \<times> string \<Rightarrow> string" where
  "item_text kt = [CHR 0x22] @ fst kt @ [CHR 0x22] @ '': '' @ snd kt"

fun dumps :: "('v \<Rightarrow> string) \<Rightarrow> 'v json \<Rightarrow> string"
and dumps_items :: "('v \<Rightarrow> string) \<Rightarrow> (string \<times> 'v json) list \<Rightarrow> (string \<times> string) list" where
  "dumps plain_text (JValue x) = plain_text x"
| "dumps plain_text (JDict kvs) =
     ''{'' @ join_items (map item_text (sort_key fst (dumps_items plain_text kvs))) @ ''}''"
| "dumps_items plain_text [] = []"
| "dumps_items plain_text ((k, v) # kvs) = (k, dumps plain_text v) # dumps_items plain_text kvs"

text \<open>
  \<open>zlib.crc32\<close>: the reflected CRC-32 with polynomial \<open>0xEDB88320\<close>, start value and final
  complement \<open>0xFFFFFFFF\<close>, over the bytes of the text (which is ASCII, so \<open>.encode()\<close>
  changes nothing).
\<close>

fun crc32_bits :: "nat \<Rightarrow> 32 word \<Rightarrow> 32 word" where
  "crc32_bits 0 c = c"
| "crc32_bits (Suc n) c =
     crc32_bits n (if bit c 0 then drop_bit 1 c XOR 0xEDB88320 else drop_bit 1 c)"

definition crc32_byte :: "32 word \<Rightarrow> char \<Rightarrow> 32 word" where
  "crc32_byte c b = crc32_bits 8 (c XOR of_char b)"

definition crc32 :: "string \<Rightarrow> 32 word" where
  "crc32 bs = foldl crc32_byte 0xFFFFFFFF bs XOR 0xFFFFFFFF"

subsection \<open>ProcessStep\<close>

text \<open>
  \<open>sensitivity_filter\<close> is \<open>_sensitivity_filter\<close>: \<open>None\<close>, or the set of attributes given
  to \<open>attrs.filters.include\<close>. \<open>current_profile_checksum\<close> is \<open>_current_profile_checksum\<close>.
\<close>

record ProcessStep =
  path :: "string option"
  description :: string
  sensitivity_filter :: "Attribute set option"
  current_profile_checksum :: "32 word option"

definition ProcessStep_init :: "string \<Rightarrow> Attribute list option \<Rightarrow> ProcessStep" where
  "ProcessStep_init descr profile_sensitivity =
     \<lparr>path = None, description = descr,
      sensitivity_filter =
        (case profile_sensitivity of None \<Rightarrow> None | Some attrs \<Rightarrow> Some (set attrs)),
      current_profile_checksum = None\<rparr>"

definition has_path :: "ProcessStep \<Rightarrow> bool" where
  "has_path self = (path self \<noteq> None)"

definition profile_checksum :: "('v \<Rightarrow> string) \<Rightarrow> ProcessStep \<Rightarrow> 'v attrs_instance \<Rightarrow> 32 word" where
  "profile_checksum plain_text self profile =
     (let serialized_data = dumps plain_text (JDict (asdict (sensitivity_filter self) profile))
      in crc32 serialized_data)"

definition update_checksum :: "('v \<Rightarrow> string) \<Rightarrow> ProcessStep \<Rightarrow> 'v attrs_instance \<Rightarrow> ProcessStep" where
  "update_checksum plain_text self profile =
     self\<lparr>current_profile_checksum := Some (profile_checksum plain_text self profile)\<rparr>"

definition is_profile_changed :: "('v \<Rightarrow> string) \<Rightarrow> ProcessStep \<Rightarrow> 'v attrs_instance \<Rightarrow> bool" where
  "is_profile_changed plain_text self profile =
     (current_profile_checksum self \<noteq> Some (profile_checksum plain_text self profile))"


subsection \<open>The steps of an ImageFile\<close>

text \<open>The enumeration \<open>Step\<close>; \<open>step_value\<close> is the value \<open>auto()\<close> gives each member.\<close>

datatype Step =
  input | ai_mask | initial_boxes | final_boxes | box_mask | cut_mask | mask_layers
  | final_mask | mask_overlay | masked_image | denoiser_mask | denoised_image

fun step_value :: "Step \<Rightarrow> nat" where
  "step_value input = 1"
| "step_value ai_mask = 2"
| "step_value initial_boxes = 3"
| "step_value final_boxes = 4"
| "step_value box_mask = 5"
| "step_value cut_mask = 6"
| "step_value mask_layers = 7"
| "step_value final_mask = 8"
| "step_value mask_overlay = 9"
| "step_value masked_image = 10"
| "step_value denoiser_mask = 11"
| "step_value denoised_image = 12"

text \<open>The attributes \<open>ImageFile.__init__\<close> names, through \<open>pro\<close>, \<open>gen\<close>, \<open>td\<close>, \<open>pp\<close>, \<open>mk\<close>.\<close>

definition pro :: "(string \<Rightarrow> string \<Rightarrow> string) \<Rightarrow> string \<Rightarrow> Attribute" where
  "pro cs = fields_of cs ''Profile''"

definition gen :: "(string \<Rightarrow> string \<Rightarrow> string) \<Rightarrow> string \<Rightarrow> Attribute" where
  "gen cs = fields_of cs ''GeneralConfig''"

definition td :: "(string \<Rightarrow> string \<Rightarrow> string) \<Rightarrow> string \<Rightarrow> Attribute" where
  "td cs = fields_of cs ''TextDetectorConfig''"

definition pp :: "(string \<Rightarrow> string \<Rightarrow> string) \<Rightarrow> string \<Rightarrow> Attribute" where
  "pp cs = fields_of cs ''PreprocessorConfig''"

definition mk :: "(string \<Rightarrow> string \<Rightarrow> string) \<Rightarrow> string \<Rightarrow> Attribute" where
  "mk cs = fields_of cs ''MaskerConfig''"

text \<open>
  The assignments of \<open>ImageFile.__init__\<close> into \<open>self.steps\<close>. \<open>settings += [...]\<close>
  extends the one list object, but each \<open>ProcessStep\<close> has put the elements it was given
  into its own filter, so the steps built earlier keep their sets. \<open>init_steps\<close> takes the
  dictionary found in \<open>self.steps\<close> and returns it after the twelve assignments.
\<close>

definition init_steps ::
  "(string \<Rightarrow> string \<Rightarrow> string) \<Rightarrow> (Step \<rightharpoonup> ProcessStep) \<Rightarrow> (Step \<rightharpoonup> ProcessStep)" where
  "init_steps cs steps0 =
    (let settings = [gen cs ''input_size_scale''];
         steps = steps0(input \<mapsto> ProcessStep_init
           ''The original image with the scale factor applied.'' (Some settings));
         settings = settings @ [td cs ''model_path''];
         steps = steps(ai_mask \<mapsto> ProcessStep_init
           ''The rough mask generated by the AI.'' (Some settings));
         settings = settings @
           [pp cs ''box_min_size'', pp cs ''suspicious_box_min_size'',
            pp cs ''box_padding_initial'', pp cs ''box_right_padding_initial''];
         steps = steps(initial_boxes \<mapsto> ProcessStep_init
           ''The outlines of the text boxes the AI found.'' (Some settings));
         settings = settings @ [pro cs ''preprocessor''];
         steps = steps(final_boxes \<mapsto> ProcessStep_init
           (''The final boxes after expanding, merging and filtering unneeded boxes with OCR.''
            @ [CHR 0x0A]
            @ ''Green: initial boxes. Red: extended boxes. Purple: merged (final) boxes. ''
            @ ''Blue: reference boxes for denoising.'')
           (Some settings));
         steps = steps(box_mask \<mapsto> ProcessStep_init
           ''The mask of the merged boxes.'' (Some settings));
         steps = steps(cut_mask \<mapsto> ProcessStep_init
           ''The rough text detection mask with everything outside the box mask cut out.''
           (Some settings));
         settings = settings @ [mk cs ''mask_growth_step_pixels'', mk cs ''mask_growth_steps''];
         steps = steps(mask_layers \<mapsto> ProcessStep_init
           ''The different steps of growth around the cut mask displayed in different colors.''
           (Some settings));
         settings = settings @
           [mk cs ''off_white_max_threshold'', mk cs ''mask_improvement_threshold'',
            mk cs ''mask_selection_fast'', mk cs ''mask_max_standard_deviation''];
         steps = steps(final_mask \<mapsto> ProcessStep_init
           ''The collection of masks for each bubble that fit best.'' (Some settings));
         steps = steps(mask_overlay \<mapsto> ProcessStep_init
           ''The input image with the final mask overlaid in color.''
           (Some (settings @ [mk cs ''debug_mask_color''])));
         steps = steps(masked_image \<mapsto> ProcessStep_init
           ''The input image with the final mask applied.'' (Some settings));
         settings = settings @ [pro cs ''denoiser''];
         steps = steps(denoiser_mask \<mapsto> ProcessStep_init
           ''The final mask overlaid on a denoised portion of the input image.''
           (Some settings));
         steps = steps(denoised_image \<mapsto> ProcessStep_init
           ''The input image with the denoised mask applied.'' (Some settings))
     in steps)"

text \<open>
  An \<open>ImageFile\<close> object with the attributes \<open>__init__\<close> touches, each \<open>None\<close> while the
  name is not bound. The class body gives \<open>thumbnail\<close>, \<open>size\<close> and \<open>error\<close> the value
  \<open>None\<close> (not modelled) but only annotates \<open>path\<close>, \<open>icon\<close> and \<open>steps\<close>, which binds
  nothing: on a new object none of the three exists.
\<close>

record ImageFile =
  file_path :: "string option"
  icon :: "string option"
  steps :: "(Step \<rightharpoonup> ProcessStep) option"

definition new_ImageFile :: ImageFile where
  "new_ImageFile = \<lparr>file_path = None, icon = None, steps = None\<rparr>"

text \<open>
  \<open>__init__\<close>. \<open>icon_of p\<close> stands for \<open>cfg.SUFFIX_TO_ICON[path.suffix.lower()]\<close>, \<open>None\<close>
  where the table has no such key. The first \<open>self.steps[Step.input] = ...\<close> reads the
  attribute \<open>steps\<close> of the object, an \<open>AttributeError\<close> when it is not bound.
\<close>

definition ImageFile_init ::
  "(string \<Rightarrow> string \<Rightarrow> string) \<Rightarrow> (string \<Rightarrow> string option) \<Rightarrow> ImageFile \<Rightarrow> string
     \<Rightarrow> error + ImageFile" where
  "ImageFile_init cs icon_of self p =
     (let self = self\<lparr>file_path := Some p\<rparr>
      in case icon_of p of
           None \<Rightarrow> Inl KeyError
         | Some theme_icon \<Rightarrow>
             (let self = self\<lparr>icon := Some theme_icon\<rparr>
              in case steps self of
                   None \<Rightarrow> Inl AttributeError
                 | Some steps0 \<Rightarrow> Inr (self\<lparr>steps := Some (init_steps cs steps0)\<rparr>)))"

text \<open>The call \<open>ImageFile(path)\<close>: \<open>__init__\<close> on a new object.\<close>

definition ImageFile_call ::
  "(string \<Rightarrow> string \<Rightarrow> string) \<Rightarrow> (string \<Rightarrow> string option) \<Rightarrow> string \<Rightarrow> error + ImageFile" where
  "ImageFile_call cs icon_of p = ImageFile_init cs icon_of new_ImageFile p"

text \<open>
  The fields a step tracks: the set in its filter, given that it has one (a step without a
  filter tracks every field; \<open>__init__\<close> builds none such).
\<close>

definition tracked_fields :: "ProcessStep \<Rightarrow> Attribute set" where
  "tracked_fields ps = (case sensitivity_filter ps of None \<Rightarrow> UNIV | Some attrs \<Rightarrow> attrs)"


section \<open>Notions the properties are stated with\<close>

text \<open>A rectangle is well formed when \<open>x1 \<le> x2\<close> and \<open>y1 \<le> y2\<close>.\<close>

fun well_formed :: "box \<Rightarrow> bool" where
  "well_formed (x1, y1, x2, y2) = (x1 \<le> x2 \<and> y1 \<le> y2)"

fun within_image :: "int \<Rightarrow> int \<Rightarrow> box \<Rightarrow> bool" where
  "within_image image_width image_height (x1, y1, x2, y2) =
     (0 \<le> x1 \<and> x2 \<le> image_width \<and> 0 \<le> y1 \<and> y2 \<le> image_height)"

text \<open>
  The integer points of a box, both bounds included (as the overlap test includes them), and
  the points covered by a collection.
\<close>

fun box_covers :: "box \<Rightarrow> int \<times> int \<Rightarrow> bool" where
  "box_covers (x1, y1, x2, y2) (x, y) = (x1 \<le> x \<and> x \<le> x2 \<and> y1 \<le> y \<and> y \<le> y2)"

definition covered :: "box list \<Rightarrow> int \<times> int \<Rightarrow> bool" where
  "covered bs pt = list_ex (\<lambda>b. box_covers b pt) bs"

text \<open>\<open>box_within b c\<close>: the box \<open>b\<close> lies in the box \<open>c\<close>, coordinate by coordinate.\<close>

fun box_within :: "box \<Rightarrow> box \<Rightarrow> bool" where
  "box_within (x1, y1, x2, y2) (u1, v1, u2, v2) =
     (u1 \<le> x1 \<and> v1 \<le> y1 \<and> x2 \<le> u2 \<and> y2 \<le> v2)"

text \<open>
  The value a profile holds for an attribute: the value of the profile's own field with
  that attribute, or else that of the first such field of an instance nested in it.
\<close>

fun field_value :: "Attribute \<Rightarrow> 'v attrs_instance \<Rightarrow> 'v pyval option"
and nested_value :: "Attribute \<Rightarrow> 'v attrs_instance \<Rightarrow> 'v pyval option" where
  "field_value a fs = (case map_of fs a of Some v \<Rightarrow> Some v | None \<Rightarrow> nested_value a fs)"
| "nested_value a [] = None"
| "nested_value a ((b, Plain x) # fs) = nested_value a fs"
| "nested_value a ((b, Instance gs) # fs) =
     (case field_value a gs of Some v \<Rightarrow> Some v | None \<Rightarrow> nested_value a fs)"

text \<open>
  The list \<open>settings\<close> as it stands at each point of \<open>ImageFile.__init__\<close>, and with it
  the list each step is built from.
\<close>

definition settings_input :: "(string \<Rightarrow> string \<Rightarrow> string) \<Rightarrow> Attribute list" where
  "settings_input cs = [gen cs ''input_size_scale'']"

definition settings_ai_mask :: "(string \<Rightarrow> string \<Rightarrow> string) \<Rightarrow> Attribute list" where
  "settings_ai_mask cs = settings_input cs @ [td cs ''model_path'']"

definition settings_initial_boxes :: "(string \<Rightarrow> string \<Rightarrow> string) \<Rightarrow> Attribute list" where
  "settings_initial_boxes cs = settings_ai_mask cs @
     [pp cs ''box_min_size'', pp cs ''suspicious_box_min_size'',
      pp cs ''box_padding_initial'', pp cs ''box_right_padding_initial'']"

definition settings_final_boxes :: "(string \<Rightarrow> string \<Rightarrow> string) \<Rightarrow> Attribute list" where
  "settings_final_boxes cs = settings_initial_boxes cs @ [pro cs ''preprocessor'']"

definition settings_mask_layers :: "(string \<Rightarrow> string \<Rightarrow> string) \<Rightarrow> Attribute list" where
  "settings_mask_layers cs = settings_final_boxes cs @
     [mk cs ''mask_growth_step_pixels'', mk cs ''mask_growth_steps'']"

definition settings_final_mask :: "(string \<Rightarrow> string \<Rightarrow> string) \<Rightarrow> Attribute list" where
  "settings_final_mask cs = settings_mask_layers cs @
     [mk cs ''off_white_max_threshold'', mk cs ''mask_improvement_threshold'',
      mk cs ''mask_selection_fast'', mk cs ''mask_max_standard_deviation'']"

definition settings_denoiser :: "(string \<Rightarrow> string \<Rightarrow> string) \<Rightarrow> Attribute list" where
  "settings_denoiser cs = settings_final_mask cs @ [pro cs ''denoiser'']"

fun step_settings :: "(string \<Rightarrow> string \<Rightarrow> string) \<Rightarrow> Step \<Rightarrow> Attribute list" where
  "step_settings cs input = settings_input cs"
| "step_settings cs ai_mask = settings_ai_mask cs"
| "step_settings cs initial_boxes = settings_initial_boxes cs"
| "step_settings cs final_boxes = settings_final_boxes cs"
| "step_settings cs box_mask = settings_final_boxes cs"
| "step_settings cs cut_mask = settings_final_boxes cs"
| "step_settings cs mask_layers = settings_mask_layers cs"
| "step_settings cs final_mask = settings_final_mask cs"
| "step_settings cs mask_overlay = settings_final_mask cs @ [mk cs ''debug_mask_color'']"
| "step_settings cs masked_image = settings_final_mask cs"
| "step_settings cs denoiser_mask = settings_denoiser cs"
| "step_settings cs denoised_image = settings_denoiser cs"

text \<open>The fields tracked by the step stored under \<open>st\<close> in a table, if there is one.\<close>

definition step_fields :: "(Step \<rightharpoonup> ProcessStep) \<Rightarrow> Step \<Rightarrow> Attribute set option" where
  "step_fields table st = map_option tracked_fields (table st)"

subsection \<open>Concrete inputs\<close>

text \<open>A page with one box and no size read yet, and a file system with a 12 x 12 image.\<close>

definition page_12 :: PageData where
  "page_12 = \<lparr>image_path = ''page.png'', mask_path = ''mask.png'', original_path = ''page.jpg'',
     scale = 1, boxes = [(5, 5, 10, 10)], extended_boxes = [], merged_extended_boxes = [],
     reference_boxes = [], cached_image_size = None\<rparr>"

definition png_12 :: "string \<Rightarrow> string option" where
  "png_12 p = Some ''PNG image data, 12 x 12, 8-bit''"

text \<open>A page with the given extended boxes.\<close>

definition page_with :: "box list \<Rightarrow> PageData" where
  "page_with bs = \<lparr>image_path = ''page.png'', mask_path = ''mask.png'',
     original_path = ''page.jpg'', scale = 1, boxes = [], extended_boxes = bs,
     merged_extended_boxes = [], reference_boxes = [], cached_image_size = None\<rparr>"

text \<open>
  Classes whose attributes all have the same other slots, so that attributes of the same name
  are equal whatever their class.
\<close>

definition bare_slots :: "string \<Rightarrow> string \<Rightarrow> string" where
  "bare_slots cls n = []"

text \<open>
  A small profile with integer values: a general group with a scale and a note, and a
  preprocessor group. \<open>str_int\<close> is the decimal text of an integer.
\<close>

definition small_profile :: "int \<Rightarrow> int \<Rightarrow> int attrs_instance" where
  "small_profile sc nt =
     [(pro bare_slots ''general'',
       Instance [(gen bare_slots ''input_size_scale'', Plain sc),
                 (gen bare_slots ''notes'', Plain nt)]),
      (pro bare_slots ''preprocessor'',
       Instance [(pp bare_slots ''box_min_size'', Plain 400),
                 (pp bare_slots ''ocr_enabled'', Plain 1)])]"

text \<open>
  An instance of a class \<open>Outer\<close> with a field \<open>a\<close> and a field \<open>inner\<close>, the latter an
  instance of a class \<open>Inner\<close> that has a field \<open>a\<close> too.
\<close>

definition outer_instance :: "int \<Rightarrow> int \<Rightarrow> int attrs_instance" where
  "outer_instance x y =
     [(fields_of bare_slots ''Outer'' ''a'', Plain x),
      (fields_of bare_slots ''Outer'' ''inner'',
       Instance [(fields_of bare_slots ''Inner'' ''a'', Plain y)])]"

text \<open>
  The step \<open>__init__\<close> builds for \<open>Step.input\<close>, and a step built from the list
  \<open>settings\<close> as it stands at \<open>Step.final_boxes\<close>.
\<close>

definition input_step :: "(string \<Rightarrow> string \<Rightarrow> string) \<Rightarrow> ProcessStep" where
  "input_step cs =
     ProcessStep_init ''The original image with the scale factor applied.''
       (Some (settings_input cs))"

definition final_boxes_step :: "(string \<Rightarrow> string \<Rightarrow> string) \<Rightarrow> ProcessStep" where
  "final_boxes_step cs =
     ProcessStep_init ''The final boxes.'' (Some (settings_final_boxes cs))"

fun str_nat :: "nat \<Rightarrow> string" where
  "str_nat n =
     (if n < 10 then [char_of (48 + n)] else str_nat (n div 10) @ [char_of (48 + n mod 10)])"

declare str_nat.simps [simp del]

definition str_int :: "int \<Rightarrow> string" where
  "str_int i = (if i < 0 then ''-'' @ str_nat (nat (- i)) else str_nat (nat i))"

section \<open>Properties\<close>

subsection \<open>Mask fitting results\<close>

text \<open>
  C9. \<open>failed\<close> is true exactly when \<open>best_mask\<close> is \<open>None\<close>, and the success flag of the
  analytics tuple is true exactly when it is not; both are total, so neither raises.
\<close>

theorem failed_iff_no_best_mask:
  "failed r = (best_mask r = None) \<and> fst (snd (analytics r)) = (best_mask r \<noteq> None)
   \<and> fst (snd (analytics r)) = (\<not> failed r)"
  by (simp add: failed_def analytics_def)

subsection \<open>Growing boxes\<close>

text \<open>
  C8, as claimed, fails: shrinking the box \<open>(0, 0, 10, 10)\<close> by 6 in a 100 x 100 image
  gives \<open>(6, 6, 4, 4)\<close>, with \<open>x1 > x2\<close> and \<open>y1 > y2\<close>.
\<close>

theorem grow_box_inverts_counterexample:
  "well_formed (0, 0, 10, 10) \<and> grow_box (- 6) 100 100 (0, 0, 10, 10) = (6, 6, 4, 4)
   \<and> \<not> well_formed (grow_box (- 6) 100 100 (0, 0, 10, 10))"
  by simp

text \<open>
  C8, amended. For a well-formed rectangle inside the image, the grown rectangle is well
  formed exactly when the padding takes no more than the extent away, \<open>-2 * padding\<close> at most
  the width and the height; so always for a padding that is not negative.
\<close>

theorem grow_box_well_formed_iff:
  assumes "well_formed (x1, y1, x2, y2)" and "within_image w h (x1, y1, x2, y2)"
  shows "well_formed (grow_box p w h (x1, y1, x2, y2))
         \<longleftrightarrow> (- 2 * p \<le> x2 - x1 \<and> - 2 * p \<le> y2 - y1)"
  using assms by (auto simp: max_def min_def)

theorem grow_box_well_formed_iff_witness:
  "well_formed (0, 0, 10, 10) \<and> within_image 100 100 (0, 0, 10, 10)
   \<and> well_formed (grow_box (- 3) 100 100 (0, 0, 10, 10))
   \<and> \<not> well_formed (grow_box (- 6) 100 100 (0, 0, 10, 10))"
  using grow_box_well_formed_iff [of 0 0 10 10 100 100 "- 3"]
    grow_box_well_formed_iff [of 0 0 10 10 100 100 "- 6"]
  by simp

subsection \<open>The overlap resolver\<close>

lemma box_within_refl: "box_within b b"
  by (cases b) simp

lemma box_within_trans: "box_within a b \<Longrightarrow> box_within b c \<Longrightarrow> box_within a c"
  by (cases a, cases b, cases c) simp

lemma merge_boxes_within_left: "box_within a (merge_boxes a b)"
  by (cases a, cases b) simp

lemma merge_boxes_within_right: "box_within b (merge_boxes a b)"
  by (cases a, cases b) simp

lemma foldl_merge_within_start: "box_within a (foldl merge_boxes a bs)"
proof (induction bs arbitrary: a)
  case Nil
  show ?case by (simp add: box_within_refl)
next
  case (Cons b bs)
  have "box_within a (merge_boxes a b)" by (rule merge_boxes_within_left)
  moreover have "box_within (merge_boxes a b) (foldl merge_boxes (merge_boxes a b) bs)"
    by (rule Cons.IH)
  ultimately show ?case by (auto intro: box_within_trans)
qed

lemma foldl_merge_within_elem: "b \<in> set bs \<Longrightarrow> box_within b (foldl merge_boxes a bs)"
proof (induction bs arbitrary: a)
  case Nil
  then show ?case by simp
next
  case (Cons c bs)
  show ?case
  proof (cases "b = c")
    case True
    have "box_within c (merge_boxes a c)" by (rule merge_boxes_within_right)
    moreover have "box_within (merge_boxes a c) (foldl merge_boxes (merge_boxes a c) bs)"
      by (rule foldl_merge_within_start)
    ultimately show ?thesis using True by (auto intro: box_within_trans)
  next
    case False
    with Cons.prems have "b \<in> set bs" by simp
    then show ?thesis using Cons.IH by simp
  qed
qed

text \<open>Every box of the queue and every box already merged lies in a box of the result.\<close>

lemma merge_loop_keeps_within:
  "b \<in> set q \<union> set m \<Longrightarrow> \<exists>c \<in> set (merge_loop q m). box_within b c"
proof (induction q m arbitrary: b rule: merge_loop.induct)
  case (1 m)
  then show ?case by (auto intro: box_within_refl)
next
  case (2 box queue m)
  define ov where "ov = filter (boxes_overlap box) queue"
  define box' where "box' = foldl merge_boxes box ov"
  define queue' where "queue' = filter (\<lambda>b. b \<notin> set ov) queue"
  have step: "merge_loop (box # queue) m = merge_loop queue' (m @ [box'])"
    by (simp add: ov_def box'_def queue'_def Let_def)
  have IH: "\<exists>c \<in> set (merge_loop queue' (m @ [box'])). box_within d c"
    if "d \<in> set queue' \<union> set (m @ [box'])" for d
    using "2.IH" [OF ov_def box'_def queue'_def that] .
  have "\<exists>d \<in> set queue' \<union> set (m @ [box']). box_within b d"
  proof -
    consider "b \<in> set m" | "b = box" | "b \<in> set ov" | "b \<in> set queue" "b \<notin> set ov"
      using "2.prems" by auto
    then show ?thesis
    proof cases
      case 1
      then show ?thesis by (auto intro: box_within_refl)
    next
      case 2
      then have "box_within b box'" by (simp add: box'_def foldl_merge_within_start)
      then show ?thesis by auto
    next
      case 3
      then have "box_within b box'" by (simp add: box'_def foldl_merge_within_elem)
      then show ?thesis by auto
    next
      case 4
      then have "b \<in> set queue'" by (simp add: queue'_def)
      then show ?thesis by (auto intro: box_within_refl)
    qed
  qed
  then obtain d where d: "d \<in> set queue' \<union> set (m @ [box'])" and bd: "box_within b d"
    by blast
  from IH [OF d] obtain c where "c \<in> set (merge_loop queue' (m @ [box']))" and "box_within d c"
    by blast
  with bd step show ?case by (auto intro: box_within_trans)
qed

lemma box_within_covers: "box_within b c \<Longrightarrow> box_covers b pt \<Longrightarrow> box_covers c pt"
  by (cases b, cases c, cases pt) simp

text \<open>The loop appends one box per pop, so the result is no longer than the queue.\<close>

lemma merge_loop_length: "length (merge_loop q m) \<le> length q + length m"
proof (induction q m rule: merge_loop.induct)
  case (1 m)
  show ?case by simp
next
  case (2 box queue m)
  define ov where "ov = filter (boxes_overlap box) queue"
  define box' where "box' = foldl merge_boxes box ov"
  define queue' where "queue' = filter (\<lambda>b. b \<notin> set ov) queue"
  have step: "merge_loop (box # queue) m = merge_loop queue' (m @ [box'])"
    by (simp add: ov_def box'_def queue'_def Let_def)
  have "length (merge_loop queue' (m @ [box'])) \<le> length queue' + length (m @ [box'])"
    using "2.IH" [OF ov_def box'_def queue'_def] .
  moreover have "length queue' \<le> length queue" by (simp add: queue'_def)
  ultimately show ?case using step by simp
qed

text \<open>
  The runs on the set are the runs of \<open>merge_loop\<close> on the lists that enumerate it.
\<close>

lemma loop_run_is_merge_loop:
  "loop_run Q m r \<Longrightarrow> \<exists>q. distinct q \<and> set q = Q \<and> merge_loop q m = r"
proof (induction rule: loop_run.induct)
  case (finished m)
  have "distinct ([]::box list) \<and> set [] = ({}::box set) \<and> merge_loop [] m = m" by simp
  then show ?case by blast
next
  case (iteration box Q ov m r)
  then obtain q' where q': "distinct q'" "set q' = Q - {box} - set ov"
    and run: "merge_loop q' (m @ [foldl merge_boxes box ov]) = r"
    by blast
  let ?q = "box # ov @ q'"
  have ov_sub: "set ov \<subseteq> Q - {box}" using iteration.hyps(3) by auto
  have d: "distinct ?q" using q' iteration.hyps(2) ov_sub by auto
  have s: "set ?q = Q" using q' iteration.hyps(1) ov_sub by auto
  have f1: "filter (boxes_overlap box) ov = ov"
    using iteration.hyps(3) by (auto simp: filter_id_conv)
  have f2: "filter (boxes_overlap box) q' = []"
    using q'(2) iteration.hyps(3) by (auto simp: filter_empty_conv)
  have f3: "filter (\<lambda>b. b \<notin> set ov) ov = []"
    by (simp add: filter_empty_conv)
  have f4: "filter (\<lambda>b. b \<notin> set ov) q' = q'"
    using q'(2) by (auto simp: filter_id_conv)
  have "merge_loop ?q m = r"
    using run by (simp add: f1 f2 f3 f4 Let_def)
  with d s show ?case by blast
qed

lemma merge_loop_is_loop_run:
  "distinct q \<Longrightarrow> loop_run (set q) m (merge_loop q m)"
proof (induction q m rule: merge_loop.induct)
  case (1 m)
  show ?case by (simp add: loop_run.finished)
next
  case (2 box queue m)
  define ov where "ov = filter (boxes_overlap box) queue"
  define box' where "box' = foldl merge_boxes box ov"
  define queue' where "queue' = filter (\<lambda>b. b \<notin> set ov) queue"
  have step: "merge_loop (box # queue) m = merge_loop queue' (m @ [box'])"
    by (simp add: ov_def box'_def queue'_def Let_def)
  from "2.prems" have dq: "distinct queue" and nb: "box \<notin> set queue" by auto
  have "distinct queue'" using dq by (simp add: queue'_def)
  then have IH: "loop_run (set queue') (m @ [box']) (merge_loop queue' (m @ [box']))"
    using "2.IH" [OF ov_def box'_def queue'_def] by blast
  have a: "box \<in> set (box # queue)" by simp
  have b: "distinct ov" using dq by (simp add: ov_def)
  have c: "set ov = {b \<in> set (box # queue) - {box}. boxes_overlap box b}"
    using nb by (auto simp: ov_def)
  have e: "set (box # queue) - {box} - set ov = set queue'"
    using nb by (auto simp: queue'_def)
  have "loop_run (set (box # queue) - {box} - set ov) (m @ [foldl merge_boxes box ov])
          (merge_loop queue' (m @ [box']))"
    using IH by (simp only: e box'_def)
  then have "loop_run (set (box # queue)) m (merge_loop queue' (m @ [box']))"
    by (rule loop_run.iteration [OF a b c])
  then show ?case by (simp only: step)
qed

text \<open>
  C1 on the boxes \<open>(0, 0, 6, 6)\<close>, \<open>(4, 4, 10, 10)\<close>, \<open>(8, 0, 10, 2)\<close>. The third overlaps
  neither of the first two, but it overlaps their merge \<open>(0, 0, 10, 10)\<close>, and the loop
  compares a box of the queue only with the popped box as it was before merging. In each of
  the six orders the result holds both \<open>(0, 0, 10, 10)\<close> and \<open>(8, 0, 10, 2)\<close>, which overlap.
\<close>

theorem resolve_overlaps_leaves_overlap:
  "merged_extended_boxes (resolve_overlaps [(0, 0, 6, 6), (4, 4, 10, 10), (8, 0, 10, 2)]
      (page_with [(0, 0, 6, 6), (4, 4, 10, 10), (8, 0, 10, 2)]))
     = [(0, 0, 10, 10), (8, 0, 10, 2)]
   \<and> merged_extended_boxes (resolve_overlaps [(0, 0, 6, 6), (8, 0, 10, 2), (4, 4, 10, 10)]
      (page_with [(0, 0, 6, 6), (4, 4, 10, 10), (8, 0, 10, 2)]))
     = [(0, 0, 10, 10), (8, 0, 10, 2)]
   \<and> merged_extended_boxes (resolve_overlaps [(4, 4, 10, 10), (0, 0, 6, 6), (8, 0, 10, 2)]
      (page_with [(0, 0, 6, 6), (4, 4, 10, 10), (8, 0, 10, 2)]))
     = [(0, 0, 10, 10), (8, 0, 10, 2)]
   \<and> merged_extended_boxes (resolve_overlaps [(4, 4, 10, 10), (8, 0, 10, 2), (0, 0, 6, 6)]
      (page_with [(0, 0, 6, 6), (4, 4, 10, 10), (8, 0, 10, 2)]))
     = [(0, 0, 10, 10), (8, 0, 10, 2)]
   \<and> merged_extended_boxes (resolve_overlaps [(8, 0, 10, 2), (0, 0, 6, 6), (4, 4, 10, 10)]
      (page_with [(0, 0, 6, 6), (4, 4, 10, 10), (8, 0, 10, 2)]))
     = [(8, 0, 10, 2), (0, 0, 10, 10)]
   \<and> merged_extended_boxes (resolve_overlaps [(8, 0, 10, 2), (4, 4, 10, 10), (0, 0, 6, 6)]
      (page_with [(0, 0, 6, 6), (4, 4, 10, 10), (8, 0, 10, 2)]))
     = [(8, 0, 10, 2), (0, 0, 10, 10)]
   \<and> boxes_overlap (0, 0, 10, 10) (8, 0, 10, 2)
   \<and> \<not> boxes_overlap (8, 0, 10, 2) (0, 0, 6, 6)
   \<and> \<not> boxes_overlap (8, 0, 10, 2) (4, 4, 10, 10)"
  by (simp add: resolve_overlaps_def)

text \<open>
  C2, as claimed, fails: the merge of \<open>(0, 0, 6, 6)\<close> and \<open>(4, 4, 10, 10)\<close> is the rectangle
  around both, \<open>(0, 0, 10, 10)\<close>, which covers the point \<open>(1, 8)\<close> that neither input covers.
\<close>

theorem resolve_overlaps_union_counterexample:
  "covered (merged_extended_boxes (resolve_overlaps [(0, 0, 6, 6), (4, 4, 10, 10)]
      (page_with [(0, 0, 6, 6), (4, 4, 10, 10)]))) (1, 8)
   \<and> covered (merged_extended_boxes (resolve_overlaps [(4, 4, 10, 10), (0, 0, 6, 6)]
      (page_with [(0, 0, 6, 6), (4, 4, 10, 10)]))) (1, 8)
   \<and> \<not> covered (extended_boxes (page_with [(0, 0, 6, 6), (4, 4, 10, 10)])) (1, 8)"
  by (simp add: resolve_overlaps_def page_with_def covered_def)

text \<open>
  C2, amended. Whatever the order of the set, every point covered by an extended box is
  covered by a merged box: the union of the output contains the union of the input.
\<close>

theorem resolve_overlaps_covers_input:
  assumes "set_order (extended_boxes self) q" and "covered (extended_boxes self) pt"
  shows "covered (merged_extended_boxes (resolve_overlaps q self)) pt"
proof -
  from assms(2) obtain b where b: "b \<in> set (extended_boxes self)" and bp: "box_covers b pt"
    by (auto simp: covered_def list_ex_iff)
  from b assms(1) have "b \<in> set q \<union> set []" by (simp add: set_order_def)
  then obtain c where "c \<in> set (merge_loop q [])" and "box_within b c"
    using merge_loop_keeps_within by blast
  with bp show ?thesis
    by (auto simp: covered_def list_ex_iff resolve_overlaps_def intro: box_within_covers)
qed

theorem resolve_overlaps_covers_input_witness:
  "set_order (extended_boxes (page_with [(0, 0, 6, 6), (4, 4, 10, 10)]))
     [(4, 4, 10, 10), (0, 0, 6, 6)]
   \<and> covered (extended_boxes (page_with [(0, 0, 6, 6), (4, 4, 10, 10)])) (5, 1)
   \<and> covered (merged_extended_boxes (resolve_overlaps [(4, 4, 10, 10), (0, 0, 6, 6)]
        (page_with [(0, 0, 6, 6), (4, 4, 10, 10)]))) (5, 1)"
  using resolve_overlaps_covers_input
    [of "page_with [(0, 0, 6, 6), (4, 4, 10, 10)]" "[(4, 4, 10, 10), (0, 0, 6, 6)]" "(5, 1)"]
  by (simp add: page_with_def set_order_def covered_def insert_commute)

text \<open>
  C7 on the same three boxes. The first run leaves \<open>(0, 0, 10, 10)\<close> and \<open>(8, 0, 10, 2)\<close>;
  a run on these two, in either order, merges them into \<open>(0, 0, 10, 10)\<close> alone.
\<close>

theorem resolve_overlaps_second_run_differs:
  "merged_extended_boxes (resolve_overlaps [(0, 0, 6, 6), (4, 4, 10, 10), (8, 0, 10, 2)]
      (page_with [(0, 0, 6, 6), (4, 4, 10, 10), (8, 0, 10, 2)]))
     = [(0, 0, 10, 10), (8, 0, 10, 2)]
   \<and> merged_extended_boxes (resolve_overlaps [(0, 0, 10, 10), (8, 0, 10, 2)]
      (page_with [(0, 0, 10, 10), (8, 0, 10, 2)])) = [(0, 0, 10, 10)]
   \<and> merged_extended_boxes (resolve_overlaps [(8, 0, 10, 2), (0, 0, 10, 10)]
      (page_with [(0, 0, 10, 10), (8, 0, 10, 2)])) = [(0, 0, 10, 10)]
   \<and> set [(0, 0, 10, 10)] \<noteq> set [(0, 0, 10, 10), (8, 0, 10, 2 :: int)]"
  by (simp add: resolve_overlaps_def)

text \<open>
  C10 on the same three boxes: the input box \<open>(8, 0, 10, 2)\<close> lies in two boxes of the
  result, itself and \<open>(0, 0, 10, 10)\<close>, in each of the six orders.
\<close>

theorem resolve_overlaps_box_within_two:
  "filter (box_within (8, 0, 10, 2))
      (merged_extended_boxes (resolve_overlaps [(0, 0, 6, 6), (4, 4, 10, 10), (8, 0, 10, 2)]
         (page_with [(0, 0, 6, 6), (4, 4, 10, 10), (8, 0, 10, 2)])))
     = [(0, 0, 10, 10), (8, 0, 10, 2)]
   \<and> filter (box_within (8, 0, 10, 2))
      (merged_extended_boxes (resolve_overlaps [(0, 0, 6, 6), (8, 0, 10, 2), (4, 4, 10, 10)]
         (page_with [(0, 0, 6, 6), (4, 4, 10, 10), (8, 0, 10, 2)])))
     = [(0, 0, 10, 10), (8, 0, 10, 2)]
   \<and> filter (box_within (8, 0, 10, 2))
      (merged_extended_boxes (resolve_overlaps [(4, 4, 10, 10), (0, 0, 6, 6), (8, 0, 10, 2)]
         (page_with [(0, 0, 6, 6), (4, 4, 10, 10), (8, 0, 10, 2)])))
     = [(0, 0, 10, 10), (8, 0, 10, 2)]
   \<and> filter (box_within (8, 0, 10, 2))
      (merged_extended_boxes (resolve_overlaps [(4, 4, 10, 10), (8, 0, 10, 2), (0, 0, 6, 6)]
         (page_with [(0, 0, 6, 6), (4, 4, 10, 10), (8, 0, 10, 2)])))
     = [(0, 0, 10, 10), (8, 0, 10, 2)]
   \<and> filter (box_within (8, 0, 10, 2))
      (merged_extended_boxes (resolve_overlaps [(8, 0, 10, 2), (0, 0, 6, 6), (4, 4, 10, 10)]
         (page_with [(0, 0, 6, 6), (4, 4, 10, 10), (8, 0, 10, 2)])))
     = [(8, 0, 10, 2), (0, 0, 10, 10)]
   \<and> filter (box_within (8, 0, 10, 2))
      (merged_extended_boxes (resolve_overlaps [(8, 0, 10, 2), (4, 4, 10, 10), (0, 0, 6, 6)]
         (page_with [(0, 0, 6, 6), (4, 4, 10, 10), (8, 0, 10, 2)])))
     = [(8, 0, 10, 2), (0, 0, 10, 10)]"
  by (simp add: resolve_overlaps_def)

text \<open>
  What does hold of C10 for every input and every order: each extended box lies in some
  merged box, and there are at most as many merged boxes as distinct extended boxes.
\<close>

lemma resolve_overlaps_within_some:
  assumes "set_order (extended_boxes self) q" and "b \<in> set (extended_boxes self)"
  shows "\<exists>c \<in> set (merged_extended_boxes (resolve_overlaps q self)). box_within b c"
proof -
  from assms have "b \<in> set q \<union> set []" by (simp add: set_order_def)
  then show ?thesis using merge_loop_keeps_within by (simp add: resolve_overlaps_def)
qed

lemma resolve_overlaps_count:
  assumes "set_order (extended_boxes self) q"
  shows "length (merged_extended_boxes (resolve_overlaps q self)) \<le> card (set (extended_boxes self))"
proof -
  have "length (merge_loop q []) \<le> length q" using merge_loop_length [of q "[]"] by simp
  also have "\<dots> = card (set (extended_boxes self))"
    using assms distinct_card [of q] by (simp add: set_order_def)
  finally show ?thesis by (simp add: resolve_overlaps_def)
qed


subsection \<open>Reading the image size\<close>

lemma re_search_png_12: "re_search ''PNG image data, 12 x 12, 8-bit'' = Some (''12'', ''12'')"
  by code_simp

lemma int_of_digits_12: "int_of_digits ''12'' = 12"
  by code_simp

lemma re_search_data: "re_search ''data'' = None"
  by code_simp

text \<open>
  C4, as claimed, fails: on a page whose size has not been read, with a 12 x 12 image at
  its path, \<open>grow_boxes\<close> and \<open>right_pad_boxes\<close> succeed; they read the size themselves.
\<close>

theorem grow_boxes_unresolved_size_counterexample:
  "cached_image_size page_12 = None
   \<and> grow_boxes png_12 3 BOX page_12
       = Inr (page_12\<lparr>boxes := [(2, 2, 12, 12)], cached_image_size := Some (12, 12)\<rparr>)
   \<and> right_pad_boxes png_12 3 BOX page_12
       = Inr (page_12\<lparr>boxes := [(5, 5, 12, 10)], cached_image_size := Some (12, 12)\<rparr>)"
  by (simp add: page_12_def grow_boxes_def right_pad_boxes_def image_size_def png_12_def
      re_search_png_12 int_of_digits_12 Let_def del: re_search.simps)

text \<open>
  C4, amended. On a page whose size has not been read, both methods read the description of
  the image file, take the size from its first \<open>W x H\<close>, keep it in the page and work with it;
  they fail only when the file cannot be described or its description holds no \<open>W x H\<close>.
\<close>

theorem unresolved_size_read_from_file:
  assumes "cached_image_size self = None"
  shows "grow_boxes from_file padding box_type self =
           (case from_file (image_path self) of
              None \<Rightarrow> Inl MagicException
            | Some metadata \<Rightarrow>
                (case re_search metadata of
                   None \<Rightarrow> Inl AttributeError
                 | Some (w, h) \<Rightarrow>
                     Inr (store_boxes box_type
                            (map (grow_box padding (int_of_digits w) (int_of_digits h))
                               (boxes_from_type self box_type))
                            (self\<lparr>cached_image_size := Some (int_of_digits w, int_of_digits h)\<rparr>))))
         \<and> right_pad_boxes from_file padding box_type self =
           (case from_file (image_path self) of
              None \<Rightarrow> Inl MagicException
            | Some metadata \<Rightarrow>
                (case re_search metadata of
                   None \<Rightarrow> Inl AttributeError
                 | Some (w, h) \<Rightarrow>
                     Inr (store_boxes box_type
                            (map (right_pad_box padding (int_of_digits w))
                               (boxes_from_type self box_type))
                            (self\<lparr>cached_image_size := Some (int_of_digits w, int_of_digits h)\<rparr>))))"
  using assms
  by (simp add: grow_boxes_def right_pad_boxes_def image_size_def Let_def split: option.splits)

theorem unresolved_size_read_from_file_witness:
  "cached_image_size page_12 = None
   \<and> grow_boxes png_12 3 REFERENCE_BOX page_12
       = Inr (page_12\<lparr>cached_image_size := Some (12, 12)\<rparr>)
   \<and> right_pad_boxes (\<lambda>p. None) 3 BOX page_12 = Inl MagicException
   \<and> grow_boxes (\<lambda>p. Some ''data'') 3 BOX page_12 = Inl AttributeError"
  using unresolved_size_read_from_file [of page_12 png_12 3 REFERENCE_BOX]
    unresolved_size_read_from_file [of page_12 "\<lambda>p. None" 3 BOX]
    unresolved_size_read_from_file [of page_12 "\<lambda>p. Some ''data''" 3 BOX]
  by (simp add: page_12_def png_12_def re_search_png_12 int_of_digits_12 re_search_data
      del: re_search.simps)

subsection \<open>The checksum of a profile\<close>

text \<open>
  Two profiles with the same attributes whose values agree on every attribute the filter
  lets through are converted to the same dictionary.
\<close>

lemma asdict_into_agree:
  assumes "map fst p1 = map fst p2" and "distinct (map fst p1)"
    and "\<And>a. filter_passes flt a \<Longrightarrow> a \<in> fst ` set p1 \<Longrightarrow> map_of p1 a = map_of p2 a"
  shows "asdict_into flt p1 rv = asdict_into flt p2 rv"
  using assms
proof (induction p1 arbitrary: p2 rv)
  case Nil
  then show ?case by simp
next
  case (Cons f fs)
  obtain a v where f: "f = (a, v)" by (cases f)
  from Cons.prems(1) f obtain w gs where p2: "p2 = (a, w) # gs" and keys: "map fst fs = map fst gs"
    by (cases p2) auto
  from Cons.prems(2) f have dist: "distinct (map fst fs)" and fresh: "a \<notin> fst ` set fs"
    by auto
  have tail: "map_of fs b = map_of gs b" if "filter_passes flt b" "b \<in> fst ` set fs" for b
  proof -
    from that(2) fresh have "b \<noteq> a" by auto
    moreover have "map_of (f # fs) b = map_of p2 b"
      using Cons.prems(3) [of b] that by simp
    ultimately show ?thesis by (simp add: f p2)
  qed
  have rest: "asdict_into flt fs rv' = asdict_into flt gs rv'" for rv'
    using Cons.IH [OF keys dist tail] by blast
  show ?case
  proof (cases "filter_passes flt a")
    case True
    have "map_of (f # fs) a = map_of p2 a"
      using Cons.prems(3) [of a] True by (simp add: f)
    then have "v = w" by (simp add: f p2)
    then show ?thesis using True rest by (simp add: f p2)
  next
    case False
    then show ?thesis using rest by (simp add: f p2)
  qed
qed

lemma field_value_own: "a \<in> fst ` set p \<Longrightarrow> field_value a p = map_of p a"
proof -
  assume "a \<in> fst ` set p"
  then obtain v where "map_of p a = Some v"
    by (metis domD dom_map_of_conv_image_fst)
  then show ?thesis by simp
qed

text \<open>
  C6. Two profiles of one class (the same attributes, each once) whose values agree on every
  field the step tracks have the same checksum, whatever their other fields hold. The
  fields a step tracks are the attributes in its filter, compared as attrs compares them.
\<close>

theorem profile_checksum_tracked_only:
  assumes "map fst p1 = map fst p2" and "distinct (map fst p1)"
    and "\<forall>a. a \<in> tracked_fields s \<longrightarrow> field_value a p1 = field_value a p2"
  shows "profile_checksum t s p1 = profile_checksum t s p2"
proof -
  have same: "fst ` set p1 = fst ` set p2"
    using assms(1) by (metis set_map)
  have "map_of p1 a = map_of p2 a"
    if "filter_passes (sensitivity_filter s) a" "a \<in> fst ` set p1" for a
  proof -
    from that(1) have "a \<in> tracked_fields s"
      by (simp add: filter_passes_def tracked_fields_def split: option.splits)
    with assms(3) have "field_value a p1 = field_value a p2" by blast
    with that(2) same show ?thesis by (simp only: field_value_own)
  qed
  then have "asdict (sensitivity_filter s) p1 = asdict (sensitivity_filter s) p2"
    unfolding asdict_def by (intro asdict_into_agree assms(1,2))
  then show ?thesis by (simp add: profile_checksum_def)
qed

theorem profile_checksum_tracked_only_witness:
  "map fst (small_profile 1 2) = map fst (small_profile 1 3)
   \<and> distinct (map fst (small_profile 1 2))
   \<and> small_profile 1 2 \<noteq> small_profile 1 3
   \<and> asdict (sensitivity_filter (final_boxes_step bare_slots)) (small_profile 1 2)
       = [(''preprocessor'', JDict [(''box_min_size'', JValue 400)])]
   \<and> profile_checksum str_int (final_boxes_step bare_slots) (small_profile 1 2)
     = profile_checksum str_int (final_boxes_step bare_slots) (small_profile 1 3)"
  using profile_checksum_tracked_only
    [of "small_profile 1 2" "small_profile 1 3" "final_boxes_step bare_slots" str_int]
  by (simp add: small_profile_def final_boxes_step_def ProcessStep_init_def tracked_fields_def
      settings_final_boxes_def settings_initial_boxes_def settings_ai_mask_def
      settings_input_def pro_def gen_def pp_def td_def fields_of_def bare_slots_def
      asdict_def filter_passes_def)

text \<open>
  The filter does not tell classes apart: built from the field \<open>a\<close> of \<open>Inner\<close> and the
  field \<open>inner\<close> of \<open>Outer\<close>, it lets the field \<open>a\<close> of \<open>Outer\<close> through as well.
\<close>

lemma include_ignores_class:
  "asdict (Some (set [fields_of bare_slots ''Inner'' ''a'', fields_of bare_slots ''Outer'' ''inner'']))
     (outer_instance 2 1)
   = [(''a'', JValue 2), (''inner'', JDict [(''a'', JValue 1)])]"
  by (simp add: asdict_def outer_instance_def fields_of_def bare_slots_def filter_passes_def)

subsection \<open>The staleness query\<close>

text \<open>
  \<open>is_profile_changed\<close> compares the stored checksum with the checksum of the profile: it
  is true for a step without a stored checksum and false right after \<open>update_checksum\<close>
  with the same profile.
\<close>

lemma is_profile_changed_compares:
  "(current_profile_checksum s = None \<longrightarrow> is_profile_changed t s p)
   \<and> \<not> is_profile_changed t (update_checksum t s p) p
   \<and> (is_profile_changed t s p \<longleftrightarrow>
        (current_profile_checksum s = None
         \<or> current_profile_checksum s \<noteq> Some (profile_checksum t s p)))"
  by (auto simp: is_profile_changed_def update_checksum_def profile_checksum_def)

text \<open>
  C5 on the step of \<open>Step.input\<close>, which tracks \<open>input_size_scale\<close> of the general group.
  The filter holds that attribute but not the attribute \<open>general\<close> of the profile, so
  \<open>asdict\<close> skips the whole group and the serialised dictionary is empty for every
  profile. After \<open>update_checksum\<close> with a profile of scale 1, a profile of scale 5 has a
  different value of the tracked field and yet is not reported as changed.
\<close>

theorem is_profile_changed_misses_tracked_change:
  "tracked_fields (input_step bare_slots) = {gen bare_slots ''input_size_scale''}
   \<and> field_value (gen bare_slots ''input_size_scale'') (small_profile 1 2) = Some (Plain 1)
   \<and> field_value (gen bare_slots ''input_size_scale'') (small_profile 5 2) = Some (Plain 5)
   \<and> asdict (sensitivity_filter (input_step bare_slots)) (small_profile 1 2) = []
   \<and> asdict (sensitivity_filter (input_step bare_slots)) (small_profile 5 2) = []
   \<and> profile_checksum str_int (input_step bare_slots) (small_profile 1 2)
     = profile_checksum str_int (input_step bare_slots) (small_profile 5 2)
   \<and> \<not> is_profile_changed str_int
         (update_checksum str_int (input_step bare_slots) (small_profile 1 2))
         (small_profile 5 2)"
  by (simp add: small_profile_def input_step_def ProcessStep_init_def tracked_fields_def
      settings_input_def pro_def gen_def pp_def fields_of_def bare_slots_def asdict_def
      filter_passes_def is_profile_changed_def update_checksum_def profile_checksum_def)

subsection \<open>The table of steps\<close>

lemmas settings_defs = settings_input_def settings_ai_mask_def settings_initial_boxes_def
  settings_final_boxes_def settings_mask_layers_def settings_final_mask_def settings_denoiser_def

lemmas fields_defs = pro_def gen_def td_def pp_def mk_def fields_of_def

lemma settings_chain:
  "set (settings_input cs) \<subseteq> set (settings_ai_mask cs)"
  "set (settings_ai_mask cs) \<subseteq> set (settings_initial_boxes cs)"
  "set (settings_initial_boxes cs) \<subseteq> set (settings_final_boxes cs)"
  "set (settings_final_boxes cs) \<subseteq> set (settings_mask_layers cs)"
  "set (settings_mask_layers cs) \<subseteq> set (settings_final_mask cs)"
  "set (settings_final_mask cs) \<subseteq> set (settings_denoiser cs)"
  unfolding settings_ai_mask_def settings_initial_boxes_def settings_final_boxes_def
    settings_mask_layers_def settings_final_mask_def settings_denoiser_def
  by (simp_all only: set_append Un_upper1)

text \<open>
  What the twelve assignments store, given a dictionary to store into: each step, with the
  list \<open>step_settings\<close> names for it.
\<close>

lemma init_steps_filter:
  "\<exists>a. init_steps cs s0 A = Some a \<and> sensitivity_filter a = Some (set (step_settings cs A))"
  by (cases A; simp add: init_steps_def ProcessStep_init_def Let_def settings_defs del: set_append)

lemma init_steps_fields: "step_fields (init_steps cs s0) A = Some (set (step_settings cs A))"
  using init_steps_filter [of cs s0 A] by (auto simp: step_fields_def tracked_fields_def)

text \<open>
  Among these lists, that of an earlier step is contained in that of a later one, except for
  \<open>debug_mask_color\<close>, which the list of \<open>mask_overlay\<close> alone holds.
\<close>

lemma step_settings_mono:
  "step_value A < step_value B \<Longrightarrow>
     set (step_settings cs A) - {mk cs ''debug_mask_color''} \<subseteq> set (step_settings cs B)
     \<and> (A \<noteq> mask_overlay \<longrightarrow> set (step_settings cs A) \<subseteq> set (step_settings cs B))"
  using settings_chain [of cs] by (cases A; cases B; simp; blast)

lemma debug_mask_color_fresh: "mk cs ''debug_mask_color'' \<notin> set (settings_final_mask cs)"
  by (simp add: settings_defs fields_defs)

text \<open>
  C3. The call \<open>ImageFile(path)\<close> never returns an object, so no table of steps is ever
  built: with a suffix missing from the icon table it raises \<open>KeyError\<close>, and otherwise the
  first assignment into \<open>self.steps\<close> raises \<open>AttributeError\<close>, since nothing has bound
  \<open>steps\<close>.
\<close>

theorem ImageFile_call_raises:
  "ImageFile_call cs icon_of p
     = Inl (case icon_of p of None \<Rightarrow> KeyError | Some theme_icon \<Rightarrow> AttributeError)"
  by (simp add: ImageFile_call_def ImageFile_init_def new_ImageFile_def split: option.splits)

end
